theory Spec2Isabelle
  imports Complex_Main
begin

section \<open>Values, patient records and exceptions\<close>

text \<open>
  The program is \<^verbatim>\<open>src/app.py\<close>.  A patient record is a Python dictionary from feature
  names to values.  The values the form produces are numbers (ints, floats, 0/1 flags) and
  categorical strings.  Numbers are modelled as reals: rounding of the binary floating point
  format and the special values (NaN, infinities) are outside this model.  Strings are byte
  strings; case conversion acts on the ASCII letters.
\<close>

datatype pyval = PyNum real | PyStr string

type_synonym patient_data = "string \<rightharpoonup> pyval"

text \<open>
  The exceptions the prediction code can raise:
  \<^item> \<open>ValueError_timepoint\<close>: \<^verbatim>\<open>ValueError("Timepoint must be 'T3' or 'T5'")\<close>;
  \<^item> \<open>ValueError_missing ms\<close>: \<^verbatim>\<open>ValueError(f"Missing required features: {ms}")\<close>;
  \<^item> \<open>FileNotFoundError\<close>: raised by \<^verbatim>\<open>load_models\<close>;
  \<^item> \<open>TypeError\<close>: a float multiplied by a string;
  \<^item> \<open>LibraryError d\<close>: any exception raised inside joblib, pandas or the loaded
    model objects.
\<close>

datatype py_error =
    ValueError_timepoint
  | ValueError_missing "string list"
  | FileNotFoundError
  | TypeError
  | LibraryError string

section \<open>Constants\<close>

definition T3_IMPORTANT_FEATURES :: "string list" where
  "T3_IMPORTANT_FEATURES =
     [''LOS'', ''BMI_Current'', ''WOMACP_5'', ''WeightCurrent'', ''ICOAPC_3'',
      ''ICOAPC_1'', ''AgePreOp'', ''WOMACP_3'', ''WalkPain'', ''MobilityAidWalker'',
      ''Pre-Op Pain'', ''HeightCurrent'', ''ResultsRelief'']"

definition T5_IMPORTANT_FEATURES :: "string list" where
  "T5_IMPORTANT_FEATURES =
     [''AgePreOp'', ''BMI_Current'', ''WeightCurrent'', ''HeightCurrent'', ''LOS'',
      ''WOMACP_5'', ''ResultsRelief'', ''ICOAPC_3'', ''Pre-Op Pain'', ''WalkPain'',
      ''Approach'', ''HeadSize'']"

definition MODELS_DIR :: string where
  "MODELS_DIR = ''streamlit_models''"

section \<open>Strings and paths\<close>

definition upper_char :: "char \<Rightarrow> char" where
  "upper_char c =
     (case map_of (zip ''abcdefghijklmnopqrstuvwxyz'' ''ABCDEFGHIJKLMNOPQRSTUVWXYZ'') c of
        None \<Rightarrow> c
      | Some u \<Rightarrow> u)"

definition lower_char :: "char \<Rightarrow> char" where
  "lower_char c =
     (case map_of (zip ''ABCDEFGHIJKLMNOPQRSTUVWXYZ'' ''abcdefghijklmnopqrstuvwxyz'') c of
        None \<Rightarrow> c
      | Some l \<Rightarrow> l)"

definition upper :: "string \<Rightarrow> string" where
  "upper s = map upper_char s"

definition lower :: "string \<Rightarrow> string" where
  "lower s = map lower_char s"

text \<open>\<^verbatim>\<open>os.path.join(d, f)\<close> for a relative file name \<open>f\<close> and a directory without a
  trailing separator.\<close>

definition path_join :: "string \<Rightarrow> string \<Rightarrow> string" where
  "path_join d f = d @ ''/'' @ f"

section \<open>The environment: file system and trained artifacts\<close>

text \<open>
  A loaded artifact is opaque.  The preprocessor offers \<^verbatim>\<open>transform\<close>, the model offers
  \<^verbatim>\<open>predict\<close> (the model of \<open>predict\<close> includes taking element 0 of the result); each
  may raise.  The environment says which paths exist, what \<^verbatim>\<open>joblib.load\<close> returns for a
  path, and how pandas renders a value as text (\<^verbatim>\<open>astype(str)\<close>).
\<close>

record 'v artifact =
  transform :: "patient_data \<Rightarrow> py_error + 'v"
  predict :: "'v \<Rightarrow> py_error + real"

record 'v env =
  path_exists :: "string \<Rightarrow> bool"
  joblib_load :: "string \<Rightarrow> py_error + 'v artifact"
  astype_str :: "pyval \<Rightarrow> string"

section \<open>Loading the artifacts\<close>

definition model_path :: "string \<Rightarrow> string" where
  "model_path timepoint = path_join MODELS_DIR (lower timepoint @ ''_model.joblib'')"

definition preprocessor_path :: "string \<Rightarrow> string" where
  "preprocessor_path timepoint =
     path_join MODELS_DIR (lower timepoint @ ''_preprocessor.joblib'')"

definition load_models :: "'v env \<Rightarrow> string \<Rightarrow> py_error + ('v artifact \<times> 'v artifact)" where
  "load_models e timepoint =
     (if \<not> (path_exists e (model_path timepoint)
              \<and> path_exists e (preprocessor_path timepoint))
      then Inl FileNotFoundError
      else (case joblib_load e (model_path timepoint) of
              Inl err \<Rightarrow> Inl err
            | Inr model \<Rightarrow>
                (case joblib_load e (preprocessor_path timepoint) of
                   Inl err \<Rightarrow> Inl err
                 | Inr preprocessor \<Rightarrow> Inr (model, preprocessor))))"

section \<open>The model-backed predictor\<close>

definition np_clip :: "real \<Rightarrow> real \<Rightarrow> real \<Rightarrow> real" where
  "np_clip x lo hi = min (max x lo) hi"

definition to_dataframe :: "'v env \<Rightarrow> patient_data \<Rightarrow> patient_data" where
  "to_dataframe e patient_data =
     (case patient_data ''HeadSize'' of
        None \<Rightarrow> patient_data
      | Some v \<Rightarrow> patient_data(''HeadSize'' \<mapsto> PyStr (astype_str e v)))"

text \<open>The conditional expression of lines 100 and 191.\<close>

definition required_features :: "string \<Rightarrow> string list" where
  "required_features timepoint =
     (if timepoint = ''T3'' then T3_IMPORTANT_FEATURES else T5_IMPORTANT_FEATURES)"

definition predict_with_model :: "'v env \<Rightarrow> patient_data \<Rightarrow> string \<Rightarrow> py_error + real" where
  "predict_with_model e patient_data timepoint0 =
     (let timepoint = upper timepoint0 in
      if timepoint \<notin> set [''T3'', ''T5''] then Inl ValueError_timepoint
      else
        (case load_models e timepoint of
           Inl err \<Rightarrow> Inl err
         | Inr (model, preprocessor) \<Rightarrow>
             (let missing_features =
                    filter (\<lambda>f. patient_data f = None) (required_features timepoint)
              in if missing_features \<noteq> [] then Inl (ValueError_missing missing_features)
                 else
                   (case transform preprocessor (to_dataframe e patient_data) of
                      Inl err \<Rightarrow> Inl err
                    | Inr patient_processed \<Rightarrow>
                        (case predict model patient_processed of
                           Inl err \<Rightarrow> Inl err
                         | Inr prediction \<Rightarrow> Inr (np_clip prediction 0 8))))))"

section \<open>The heuristic (demo mode) predictor\<close>

text \<open>\<^verbatim>\<open>patient_data.get(key, default)\<close>.\<close>

definition dict_get :: "patient_data \<Rightarrow> string \<Rightarrow> pyval \<Rightarrow> pyval" where
  "dict_get patient_data key dflt =
     (case patient_data key of None \<Rightarrow> dflt | Some v \<Rightarrow> v)"

text \<open>A float coefficient times a dictionary value: a string operand raises.\<close>

definition float_mul :: "real \<Rightarrow> pyval \<Rightarrow> py_error + real" where
  "float_mul c v = (case v of PyNum x \<Rightarrow> Inr (c * x) | PyStr s \<Rightarrow> Inl TypeError)"

definition predict_in_demo_mode :: "patient_data \<Rightarrow> string \<Rightarrow> py_error + real" where
  "predict_in_demo_mode patient_data timepoint =
     (if timepoint = ''T3'' then
        (case float_mul 0.01 (dict_get patient_data ''BMI_Current'' (PyNum 25)) of
           Inl err \<Rightarrow> Inl err
         | Inr bmi_factor \<Rightarrow>
        (case float_mul 0.01 (dict_get patient_data ''AgePreOp'' (PyNum 65)) of
           Inl err \<Rightarrow> Inl err
         | Inr age_factor \<Rightarrow>
        (case float_mul 0.2 (dict_get patient_data ''Pre-Op Pain'' (PyNum 5)) of
           Inl err \<Rightarrow> Inl err
         | Inr preop_factor \<Rightarrow>
        (case float_mul 0.1 (dict_get patient_data ''WalkPain'' (PyNum 5)) of
           Inl err \<Rightarrow> Inl err
         | Inr walk_factor \<Rightarrow>
             Inr (max 0 (min 8
               (2.0 + bmi_factor + age_factor + preop_factor - walk_factor)))))))
      else
        (case float_mul 0.008 (dict_get patient_data ''BMI_Current'' (PyNum 25)) of
           Inl err \<Rightarrow> Inl err
         | Inr bmi_factor \<Rightarrow>
        (case float_mul 0.005 (dict_get patient_data ''AgePreOp'' (PyNum 65)) of
           Inl err \<Rightarrow> Inl err
         | Inr age_factor \<Rightarrow>
        (case float_mul 0.15 (dict_get patient_data ''Pre-Op Pain'' (PyNum 5)) of
           Inl err \<Rightarrow> Inl err
         | Inr preop_factor \<Rightarrow>
             (let approach_factor =
                    (if patient_data ''Approach'' = Some (PyStr ''Posterior'')
                     then 0.5 else 0)
              in Inr (max 0 (min 8
                   (1.5 + bmi_factor + age_factor + preop_factor - approach_factor))))))))"

section \<open>The page: start-up check and the predict button\<close>

definition model_files :: "string list" where
  "model_files =
     [path_join MODELS_DIR ''t3_model.joblib'',
      path_join MODELS_DIR ''t3_preprocessor.joblib'',
      path_join MODELS_DIR ''t5_model.joblib'',
      path_join MODELS_DIR ''t5_preprocessor.joblib'']"

definition check_models_exist :: "'v env \<Rightarrow> bool" where
  "check_models_exist e = list_all (path_exists e) model_files"

text \<open>What the page shows, in the order it is shown.\<close>

datatype ui_msg =
    Warning_no_models_dir
  | Warning_models_not_found
  | Warning_model_error py_error
  | Info_demo_mode
  | Prediction_results real string
  | Error_making_prediction py_error

text \<open>Lines 171 to 179 of \<^verbatim>\<open>main\<close>: the warnings and the value of \<^verbatim>\<open>use_demo_mode\<close>.\<close>

definition startup :: "'v env \<Rightarrow> ui_msg list \<times> bool" where
  "startup e =
     (if \<not> path_exists e MODELS_DIR then ([Warning_no_models_dir], True)
      else (let use_demo_mode = \<not> check_models_exist e
            in (if use_demo_mode then [Warning_models_not_found] else [], use_demo_mode)))"

text \<open>\<^verbatim>\<open>timepoint.split(" ")[0]\<close>: the text before the first space.\<close>

definition first_word :: "string \<Rightarrow> string" where
  "first_word timepoint = takeWhile (\<lambda>c. c \<noteq> CHR '' '') timepoint"

definition pain_level :: "real \<Rightarrow> string" where
  "pain_level prediction =
     (if prediction \<le> 2 then ''minimal''
      else if prediction \<le> 4 then ''mild''
      else if prediction \<le> 6 then ''moderate''
      else ''severe'')"

text \<open>The result display after a prediction, or the error notice of the outer handler.\<close>

definition display :: "py_error + real \<Rightarrow> ui_msg list" where
  "display r =
     (case r of
        Inl err \<Rightarrow> [Error_making_prediction err]
      | Inr prediction \<Rightarrow> [Prediction_results prediction (pain_level prediction)])"

text \<open>
  Lines 258 to 327: the body of the predict button.  An exception of the heuristic
  leaves the inner block before the demo notice is shown and reaches the outer handler.
\<close>

definition demo_branch :: "patient_data \<Rightarrow> string \<Rightarrow> ui_msg list" where
  "demo_branch patient_data timepoint_code =
     (case predict_in_demo_mode patient_data timepoint_code of
        Inl err \<Rightarrow> display (Inl err)
      | Inr prediction \<Rightarrow> Info_demo_mode # display (Inr prediction))"

definition predict_button :: "'v env \<Rightarrow> bool \<Rightarrow> patient_data \<Rightarrow> string \<Rightarrow> ui_msg list" where
  "predict_button e use_demo_mode patient_data timepoint_code =
     (if use_demo_mode then demo_branch patient_data timepoint_code
      else
        (case predict_with_model e patient_data timepoint_code of
           Inr prediction \<Rightarrow> display (Inr prediction)
         | Inl err \<Rightarrow> Warning_model_error err # demo_branch patient_data timepoint_code))"

text \<open>One run of the page with the button pressed: \<open>timepoint\<close> is the selected radio
  label and \<open>patient_data\<close> the dictionary collected from the form.\<close>

definition main :: "'v env \<Rightarrow> string \<Rightarrow> patient_data \<Rightarrow> ui_msg list" where
  "main e timepoint patient_data =
     (let (warnings, use_demo_mode) = startup e
      in warnings @ predict_button e use_demo_mode patient_data (first_word timepoint))"

section \<open>Example environments and records\<close>

text \<open>
  Concrete inputs for evaluating the definitions.  The example model subtracts 20 from the
  body mass index its preprocessor extracts; the failing preprocessor always raises.
\<close>

definition example_artifact :: "real artifact" where
  "example_artifact =
     \<lparr> transform = (\<lambda>df. case df ''BMI_Current'' of
                             Some (PyNum x) \<Rightarrow> Inr x
                           | _ \<Rightarrow> Inl (LibraryError ''transform'')),
       predict = (\<lambda>x. Inr (x - 20)) \<rparr>"

definition failing_artifact :: "real artifact" where
  "failing_artifact =
     \<lparr> transform = (\<lambda>df. Inl (LibraryError ''transform'')),
       predict = (\<lambda>x. Inr x) \<rparr>"

text \<open>The directory and all four files exist; the artifacts work.\<close>

definition env_trained :: "real env" where
  "env_trained =
     \<lparr> path_exists = (\<lambda>p. p = MODELS_DIR \<or> p \<in> set model_files),
       joblib_load = (\<lambda>p. Inr example_artifact),
       astype_str = (\<lambda>v. ''32'') \<rparr>"

text \<open>The directory and all four files exist; the preprocessor raises.\<close>

definition env_failing :: "real env" where
  "env_failing =
     \<lparr> path_exists = (\<lambda>p. p = MODELS_DIR \<or> p \<in> set model_files),
       joblib_load = (\<lambda>p. Inr failing_artifact),
       astype_str = (\<lambda>v. ''32'') \<rparr>"

text \<open>Only the two files of T3 exist beside the directory.\<close>

definition env_t3_only :: "real env" where
  "env_t3_only =
     \<lparr> path_exists =
         (\<lambda>p. p = MODELS_DIR \<or> p = model_path ''T3'' \<or> p = preprocessor_path ''T3''),
       joblib_load = (\<lambda>p. Inr example_artifact),
       astype_str = (\<lambda>v. ''32'') \<rparr>"

text \<open>Nothing exists.\<close>

definition env_no_files :: "real env" where
  "env_no_files =
     \<lparr> path_exists = (\<lambda>p. False),
       joblib_load = (\<lambda>p. Inl (LibraryError ''load'')),
       astype_str = (\<lambda>v. ''32'') \<rparr>"

text \<open>A record with exactly the thirteen features of T3.\<close>

definition t3_patient :: patient_data where
  "t3_patient = map_of
     [(''LOS'', PyNum 3), (''BMI_Current'', PyNum 31.5), (''WOMACP_5'', PyNum 2),
      (''WeightCurrent'', PyNum 90), (''ICOAPC_3'', PyNum 1), (''ICOAPC_1'', PyNum 1),
      (''AgePreOp'', PyNum 70), (''WOMACP_3'', PyNum 0), (''WalkPain'', PyNum 6),
      (''MobilityAidWalker'', PyNum 0), (''Pre-Op Pain'', PyNum 7),
      (''HeightCurrent'', PyNum 169), (''ResultsRelief'', PyNum 4)]"

section \<open>Auxiliary facts\<close>

subsection \<open>Case conversion and paths\<close>

lemma upper_simps:
  "upper ''t3'' = ''T3''" "upper ''T3'' = ''T3''" "upper ''t5'' = ''T5''" "upper ''T5'' = ''T5''"
  by (simp_all add: upper_def upper_char_def)

lemma lower_simps: "lower ''T3'' = ''t3''" "lower ''T5'' = ''t5''"
  by (simp_all add: lower_def lower_char_def)

lemma upper_char_T: "upper_char c = CHR ''T'' \<longleftrightarrow> c = CHR ''T'' \<or> c = CHR ''t''"
  by (simp add: upper_char_def)

lemma upper_char_3: "upper_char c = CHR ''3'' \<longleftrightarrow> c = CHR ''3''"
  by (simp add: upper_char_def)

lemma upper_char_5: "upper_char c = CHR ''5'' \<longleftrightarrow> c = CHR ''5''"
  by (simp add: upper_char_def)

lemma upper_T3_iff: "upper s = ''T3'' \<longleftrightarrow> s = ''T3'' \<or> s = ''t3''"
  by (auto simp: upper_def upper_char_T upper_char_3 map_eq_Cons_conv)

lemma upper_T5_iff: "upper s = ''T5'' \<longleftrightarrow> s = ''T5'' \<or> s = ''t5''"
  by (auto simp: upper_def upper_char_T upper_char_5 map_eq_Cons_conv)

lemma model_paths:
  "model_path ''T3'' = ''streamlit_models/t3_model.joblib''"
  "preprocessor_path ''T3'' = ''streamlit_models/t3_preprocessor.joblib''"
  "model_path ''T5'' = ''streamlit_models/t5_model.joblib''"
  "preprocessor_path ''T5'' = ''streamlit_models/t5_preprocessor.joblib''"
  by (simp_all add: model_path_def preprocessor_path_def path_join_def MODELS_DIR_def
      lower_simps)

lemma model_files_eq:
  "model_files =
     [model_path ''T3'', preprocessor_path ''T3'', model_path ''T5'', preprocessor_path ''T5'']"
  by (simp add: model_paths model_files_def path_join_def MODELS_DIR_def)

lemma first_word_labels:
  "first_word ''T3 (3 years)'' = ''T3''" "first_word ''T5 (5 years)'' = ''T5''"
  by (simp_all add: first_word_def)

lemma distinct_features: "distinct (required_features timepoint)"
  by (simp add: required_features_def T3_IMPORTANT_FEATURES_def T5_IMPORTANT_FEATURES_def)

subsection \<open>Dictionary lookups\<close>

lemma dict_get_upd_same: "dict_get (pd(k \<mapsto> v)) k d = v"
  by (simp add: dict_get_def)

lemma dict_get_upd_other: "k' \<noteq> k \<Longrightarrow> dict_get (pd(k := v)) k' d = dict_get pd k' d"
  by (simp add: dict_get_def)

lemma dict_get_None: "pd k = None \<Longrightarrow> dict_get pd k d = d"
  by (simp add: dict_get_def)

lemma dict_get_num:
  "\<forall>s. pd k \<noteq> Some (PyStr s) \<Longrightarrow> \<exists>x. dict_get pd k (PyNum d) = PyNum x"
  by (cases "pd k"; simp add: dict_get_def; metis pyval.exhaust)

lemmas demo_simps =
  predict_in_demo_mode_def dict_get_upd_same dict_get_upd_other dict_get_None

subsection \<open>The examples evaluated\<close>

lemma t3_patient_complete:
  "filter (\<lambda>f. t3_patient f = None) (required_features ''T3'') = []"
  by (simp add: t3_patient_def required_features_def T3_IMPORTANT_FEATURES_def)

lemma t3_patient_T5:
  "filter (\<lambda>f. t3_patient f = None) (required_features ''T5'') = [''Approach'', ''HeadSize'']"
  by (simp add: t3_patient_def required_features_def T5_IMPORTANT_FEATURES_def)

lemma load_trained:
  "load_models env_trained ''T3'' = Inr (example_artifact, example_artifact)"
  "load_models env_trained ''T5'' = Inr (example_artifact, example_artifact)"
  by (simp_all add: load_models_def env_trained_def model_files_eq)

lemma load_failing:
  "load_models env_failing ''T3'' = Inr (failing_artifact, failing_artifact)"
  by (simp add: load_models_def env_failing_def model_files_eq)

lemma predict_trained: "predict_with_model env_trained t3_patient ''T3'' = Inr 8"
proof -
  have "transform example_artifact (to_dataframe env_trained t3_patient) = Inr 31.5"
    by (simp add: to_dataframe_def example_artifact_def t3_patient_def)
  moreover have "predict example_artifact (31.5::real) = Inr 11.5"
    by (simp add: example_artifact_def)
  moreover have "np_clip 11.5 0 8 = 8"
    by (simp add: np_clip_def)
  ultimately show ?thesis
    by (simp add: predict_with_model_def upper_simps load_trained t3_patient_complete)
qed

lemma predict_failing:
  "predict_with_model env_failing t3_patient ''T3'' = Inl (LibraryError ''transform'')"
  by (simp add: predict_with_model_def upper_simps load_failing t3_patient_complete
      failing_artifact_def)

lemma demo_t3_patient: "predict_in_demo_mode t3_patient ''T3'' = Inr 3.815"
  by (simp add: predict_in_demo_mode_def dict_get_def float_mul_def t3_patient_def)

lemma demo_empty:
  "predict_in_demo_mode Map.empty ''T3'' = Inr 3.4"
  "predict_in_demo_mode Map.empty ''T5'' = Inr 2.775"
  by (simp_all add: predict_in_demo_mode_def dict_get_def float_mul_def)

lemma demo_posterior:
  "predict_in_demo_mode [''Approach'' \<mapsto> PyStr ''Posterior''] ''T5'' = Inr 2.275"
  by (simp add: predict_in_demo_mode_def dict_get_def float_mul_def)

section \<open>Interpretation bands\<close>



section \<open>Range of the scores\<close>



section \<open>Unrecognised timepoints\<close>

text \<open>
  Claim C2, as amended.  \<open>predict_with_model\<close> fails with the timepoint error for every
  timepoint string other than T3 and T5 in either letter case.  \<open>predict_in_demo_mode\<close>
  does not validate the timepoint: it never raises the timepoint error, and every string
  other than exactly \<open>T3\<close> is scored with the T5 formula.
\<close>

theorem invalid_timepoint_handling:
  "(tp \<notin> {''T3'', ''t3'', ''T5'', ''t5''} \<longrightarrow>
      predict_with_model e pd tp = Inl ValueError_timepoint) \<and>
   (tp \<noteq> ''T3'' \<longrightarrow> predict_in_demo_mode pd tp = predict_in_demo_mode pd ''T5'') \<and>
   predict_in_demo_mode pd tp \<noteq> Inl ValueError_timepoint"
proof (intro conjI impI)
  assume "tp \<notin> {''T3'', ''t3'', ''T5'', ''t5''}"
  then have "upper tp \<noteq> ''T3''" "upper tp \<noteq> ''T5''"
    by (auto simp: upper_T3_iff upper_T5_iff)
  then show "predict_with_model e pd tp = Inl ValueError_timepoint"
    by (simp add: predict_with_model_def)
next
  assume "tp \<noteq> ''T3''"
  then show "predict_in_demo_mode pd tp = predict_in_demo_mode pd ''T5''"
    by (simp add: predict_in_demo_mode_def)
next
  show "predict_in_demo_mode pd tp \<noteq> Inl ValueError_timepoint"
    by (auto simp: predict_in_demo_mode_def float_mul_def Let_def
        split: sum.splits pyval.splits)
qed

theorem invalid_timepoint_handling_witness:
  "predict_with_model env_trained t3_patient ''T9'' = Inl ValueError_timepoint \<and>
   predict_in_demo_mode Map.empty ''T9'' = predict_in_demo_mode Map.empty ''T5'' \<and>
   predict_in_demo_mode Map.empty ''T9'' \<noteq> Inl ValueError_timepoint"
  using invalid_timepoint_handling [of "''T9''" env_trained t3_patient]
    invalid_timepoint_handling [of "''T9''" env_trained Map.empty]
  by blast

text \<open>
  The claim as stated fails: the string \<open>T9\<close> is not a recognised timepoint, and the
  heuristic returns the score 2.775 for it.
\<close>

theorem demo_mode_accepts_unknown_timepoint:
  "upper ''T9'' \<notin> {''T3'', ''T5''} \<and> predict_in_demo_mode Map.empty ''T9'' = Inr 2.775"
  by (simp add: upper_def upper_char_def predict_in_demo_mode_def dict_get_def float_mul_def)

section \<open>When the heuristic is used\<close>

text \<open>
  Claim C3, as amended.  For a record the heuristic can score, the page shows the demo
  notice (the heuristic produced the result) exactly when the models directory is absent,
  or one of the four artifact files of the two timepoints is absent, or the model-backed
  predictor raises.
\<close>

theorem demo_mode_trigger:
  "predict_in_demo_mode pd (first_word label) = Inr s \<Longrightarrow>
   (Info_demo_mode \<in> set (main e label pd)) =
   (\<not> path_exists e MODELS_DIR \<or> (\<exists>f \<in> set model_files. \<not> path_exists e f) \<or>
    (\<exists>err. predict_with_model e pd (first_word label) = Inl err))"
  by (auto simp: main_def startup_def predict_button_def demo_branch_def display_def
      check_models_exist_def list_all_iff Let_def split: sum.splits)

theorem demo_mode_trigger_witness:
  "predict_in_demo_mode t3_patient (first_word ''T3 (3 years)'') = Inr 3.815 \<and>
   path_exists env_failing MODELS_DIR \<and> list_all (path_exists env_failing) model_files \<and>
   predict_with_model env_failing t3_patient (first_word ''T3 (3 years)'') =
     Inl (LibraryError ''transform'') \<and>
   Info_demo_mode \<in> set (main env_failing ''T3 (3 years)'' t3_patient)"
proof -
  have h: "predict_in_demo_mode t3_patient (first_word ''T3 (3 years)'') = Inr 3.815"
    by (simp add: first_word_labels demo_t3_patient)
  have p: "predict_with_model env_failing t3_patient (first_word ''T3 (3 years)'') =
     Inl (LibraryError ''transform'')"
    by (simp add: first_word_labels predict_failing)
  have x: "path_exists env_failing MODELS_DIR" "list_all (path_exists env_failing) model_files"
    by (simp_all add: env_failing_def list_all_iff)
  from demo_mode_trigger [OF h, of env_failing] p
  have "Info_demo_mode \<in> set (main env_failing ''T3 (3 years)'' t3_patient)"
    by simp
  with h p x show ?thesis
    by simp
qed

text \<open>
  The claim as stated fails in both directions it excludes.  With T3 selected and both T3
  files present, the page is in demo mode because the T5 files are absent; and with all
  four files present the heuristic is still used when the model-backed predictor raises.
\<close>

theorem demo_mode_with_selected_files_present:
  "path_exists env_t3_only (model_path ''T3'') \<and>
   path_exists env_t3_only (preprocessor_path ''T3'') \<and>
   main env_t3_only ''T3 (3 years)'' t3_patient =
     [Warning_models_not_found, Info_demo_mode, Prediction_results 3.815 ''mild''] \<and>
   check_models_exist env_failing \<and>
   main env_failing ''T3 (3 years)'' t3_patient =
     [Warning_model_error (LibraryError ''transform''), Info_demo_mode,
      Prediction_results 3.815 ''mild'']"
proof -
  have a: "path_exists env_t3_only (model_path ''T3'')"
    "path_exists env_t3_only (preprocessor_path ''T3'')"
    by (simp_all add: env_t3_only_def)
  have b: "startup env_t3_only = ([Warning_models_not_found], True)"
    by (simp add: startup_def check_models_exist_def env_t3_only_def model_files_eq
        model_paths MODELS_DIR_def)
  have c: "check_models_exist env_failing"
    by (simp add: check_models_exist_def env_failing_def list_all_iff)
  have d: "startup env_failing = ([], False)"
    using c by (simp add: startup_def env_failing_def)
  have e: "demo_branch t3_patient ''T3'' =
     [Info_demo_mode, Prediction_results 3.815 ''mild'']"
    by (simp add: demo_branch_def demo_t3_patient display_def pain_level_def)
  show ?thesis
    using a c
    by (simp add: main_def b d e predict_button_def first_word_labels predict_failing)
qed

section \<open>Absent artifacts\<close>

text \<open>
  Claim C4.  Whenever an artifact file is absent, the score the page shows is the output
  of the heuristic on the same record and timepoint, and the demo notice is shown with it.
\<close>

theorem absent_artifacts_use_heuristic:
  "f \<in> set model_files \<Longrightarrow> \<not> path_exists e f \<Longrightarrow>
   predict_in_demo_mode pd (first_word label) = Inr s \<Longrightarrow>
   \<exists>w. main e label pd = [w, Info_demo_mode, Prediction_results s (pain_level s)] \<and>
       w \<in> {Warning_no_models_dir, Warning_models_not_found}"
  by (auto simp: main_def startup_def predict_button_def demo_branch_def display_def
      check_models_exist_def list_all_iff Let_def split: sum.splits)

theorem absent_artifacts_use_heuristic_witness:
  "model_path ''T5'' \<in> set model_files \<and> \<not> path_exists env_no_files (model_path ''T5'') \<and>
   predict_in_demo_mode [''Approach'' \<mapsto> PyStr ''Posterior''] (first_word ''T5 (5 years)'')
     = Inr 2.275 \<and>
   (\<exists>w. main env_no_files ''T5 (5 years)'' [''Approach'' \<mapsto> PyStr ''Posterior''] =
      [w, Info_demo_mode, Prediction_results 2.275 (pain_level 2.275)] \<and>
      w \<in> {Warning_no_models_dir, Warning_models_not_found})"
proof -
  have h1: "model_path ''T5'' \<in> set model_files"
    by (simp add: model_files_eq)
  have h2: "\<not> path_exists env_no_files (model_path ''T5'')"
    by (simp add: env_no_files_def)
  have h3: "predict_in_demo_mode [''Approach'' \<mapsto> PyStr ''Posterior'']
      (first_word ''T5 (5 years)'') = Inr 2.275"
    by (simp add: first_word_labels demo_posterior)
  from absent_artifacts_use_heuristic [OF h1 h2 h3] h1 h2 h3 show ?thesis
    by blast
qed

section \<open>Missing features\<close>

text \<open>
  Claim C5, as amended.  When the timepoint is valid and both artifacts of the timepoint
  load, a record that lacks one or more of the required features makes
  \<open>predict_with_model\<close> fail with the missing-features error, whose payload lists every
  absent required key exactly once and nothing else.
\<close>

theorem missing_features_reported:
  assumes "upper tp \<in> {''T3'', ''T5''}"
    and "load_models e (upper tp) = Inr (m, p)"
    and "f \<in> set (required_features (upper tp))"
    and "pd f = None"
  shows "\<exists>ms. predict_with_model e pd tp = Inl (ValueError_missing ms) \<and>
      set ms = {f \<in> set (required_features (upper tp)). pd f = None} \<and> distinct ms"
proof -
  let ?ms = "filter (\<lambda>f. pd f = None) (required_features (upper tp))"
  have "?ms \<noteq> []"
    using assms(3,4) by (auto simp: filter_empty_conv)
  then have "predict_with_model e pd tp = Inl (ValueError_missing ?ms)"
    using assms(1,2) by (simp add: predict_with_model_def Let_def)
  moreover have "distinct ?ms"
    by (simp add: distinct_features)
  ultimately show ?thesis
    by auto
qed

text \<open>The T3 record lacks two of the T5 features; both are named.\<close>

theorem missing_features_reported_witness:
  "upper ''t5'' \<in> {''T3'', ''T5''} \<and>
   load_models env_trained (upper ''t5'') = Inr (example_artifact, example_artifact) \<and>
   ''Approach'' \<in> set (required_features (upper ''t5'')) \<and>
   t3_patient ''Approach'' = None \<and>
   (\<exists>ms. predict_with_model env_trained t3_patient ''t5'' = Inl (ValueError_missing ms) \<and>
      set ms = {''Approach'', ''HeadSize''} \<and> distinct ms)"
proof -
  have h1: "upper ''t5'' \<in> {''T3'', ''T5''}"
    by (simp add: upper_simps)
  have h2: "load_models env_trained (upper ''t5'') = Inr (example_artifact, example_artifact)"
    by (simp add: upper_simps load_trained)
  have h3: "''Approach'' \<in> set (required_features (upper ''t5''))"
    by (simp add: upper_simps required_features_def T5_IMPORTANT_FEATURES_def)
  have h4: "t3_patient ''Approach'' = None"
    by (simp add: t3_patient_def)
  have "{f \<in> set (required_features ''T5''). t3_patient f = None} =
      set (filter (\<lambda>f. t3_patient f = None) (required_features ''T5''))"
    by simp
  then have h5: "{f \<in> set (required_features (upper ''t5'')). t3_patient f = None} =
      {''Approach'', ''HeadSize''}"
    by (simp only: t3_patient_T5 upper_simps) simp
  from missing_features_reported
         [where tp = "''t5''" and e = env_trained and pd = t3_patient and f = "''Approach''",
          OF h1 h2 h3 h4]
  have "\<exists>ms. predict_with_model env_trained t3_patient ''t5'' = Inl (ValueError_missing ms) \<and>
      set ms = {''Approach'', ''HeadSize''} \<and> distinct ms"
    unfolding h5 .
  with h1 h2 h3 h4 show ?thesis
    by blast
qed

text \<open>
  The claim as stated fails: the artifacts are loaded before the record is checked, so
  with the files absent an empty record fails with the file error instead.
\<close>

theorem missing_features_after_load:
  "Map.empty ''LOS'' = (None :: pyval option) \<and> ''LOS'' \<in> set (required_features ''T3'') \<and>
   predict_with_model env_no_files Map.empty ''T3'' = Inl FileNotFoundError"
  by (simp add: predict_with_model_def upper_simps load_models_def env_no_files_def
      required_features_def T3_IMPORTANT_FEATURES_def)

section \<open>Defaults of the heuristic\<close>

text \<open>
  Claim C6.  \<open>predict_in_demo_mode\<close> never fails on a missing key.  An absent
  \<open>BMI_Current\<close>, \<open>AgePreOp\<close>, \<open>Pre-Op Pain\<close> or \<open>WalkPain\<close> is scored as 25, 65, 5
  or 5; no key other than these four and \<open>Approach\<close> is read at all; and whenever none of
  the four holds a string, a score is returned, for every record (the empty one included)
  and every timepoint.  An absent \<open>Approach\<close> counts as not posterior.
\<close>

theorem demo_mode_defaults:
  "(pd ''BMI_Current'' = None \<longrightarrow>
      predict_in_demo_mode pd tp =
      predict_in_demo_mode (pd(''BMI_Current'' \<mapsto> PyNum 25)) tp) \<and>
   (pd ''AgePreOp'' = None \<longrightarrow>
      predict_in_demo_mode pd tp =
      predict_in_demo_mode (pd(''AgePreOp'' \<mapsto> PyNum 65)) tp) \<and>
   (pd ''Pre-Op Pain'' = None \<longrightarrow>
      predict_in_demo_mode pd tp =
      predict_in_demo_mode (pd(''Pre-Op Pain'' \<mapsto> PyNum 5)) tp) \<and>
   (pd ''WalkPain'' = None \<longrightarrow>
      predict_in_demo_mode pd tp =
      predict_in_demo_mode (pd(''WalkPain'' \<mapsto> PyNum 5)) tp) \<and>
   (k \<notin> {''BMI_Current'', ''AgePreOp'', ''Pre-Op Pain'', ''WalkPain'', ''Approach''} \<longrightarrow>
      predict_in_demo_mode (pd(k := v)) tp = predict_in_demo_mode pd tp) \<and>
   ((\<forall>f \<in> {''BMI_Current'', ''AgePreOp'', ''Pre-Op Pain'', ''WalkPain''}.
        \<forall>s. pd f \<noteq> Some (PyStr s)) \<longrightarrow>
      (\<exists>score. predict_in_demo_mode pd tp = Inr score))"
proof (intro conjI impI)
  assume "pd ''BMI_Current'' = None"
  then show "predict_in_demo_mode pd tp =
      predict_in_demo_mode (pd(''BMI_Current'' \<mapsto> PyNum 25)) tp"
    by (simp add: demo_simps cong: sum.case_cong)
next
  assume "pd ''AgePreOp'' = None"
  then show "predict_in_demo_mode pd tp =
      predict_in_demo_mode (pd(''AgePreOp'' \<mapsto> PyNum 65)) tp"
    by (simp add: demo_simps cong: sum.case_cong)
next
  assume "pd ''Pre-Op Pain'' = None"
  then show "predict_in_demo_mode pd tp =
      predict_in_demo_mode (pd(''Pre-Op Pain'' \<mapsto> PyNum 5)) tp"
    by (simp add: demo_simps cong: sum.case_cong)
next
  assume "pd ''WalkPain'' = None"
  then show "predict_in_demo_mode pd tp =
      predict_in_demo_mode (pd(''WalkPain'' \<mapsto> PyNum 5)) tp"
    by (simp add: demo_simps cong: sum.case_cong)
next
  assume "k \<notin> {''BMI_Current'', ''AgePreOp'', ''Pre-Op Pain'', ''WalkPain'', ''Approach''}"
  then have "''BMI_Current'' \<noteq> k" "''AgePreOp'' \<noteq> k" "''Pre-Op Pain'' \<noteq> k"
    "''WalkPain'' \<noteq> k" "''Approach'' \<noteq> k"
    by auto
  then show "predict_in_demo_mode (pd(k := v)) tp = predict_in_demo_mode pd tp"
    by (simp add: demo_simps cong: sum.case_cong)
next
  assume a: "\<forall>f \<in> {''BMI_Current'', ''AgePreOp'', ''Pre-Op Pain'', ''WalkPain''}.
      \<forall>s. pd f \<noteq> Some (PyStr s)"
  obtain b where b: "dict_get pd ''BMI_Current'' (PyNum 25) = PyNum b"
    using a dict_get_num [of pd "''BMI_Current''" 25] by auto
  obtain g where g: "dict_get pd ''AgePreOp'' (PyNum 65) = PyNum g"
    using a dict_get_num [of pd "''AgePreOp''" 65] by auto
  obtain q where q: "dict_get pd ''Pre-Op Pain'' (PyNum 5) = PyNum q"
    using a dict_get_num [of pd "''Pre-Op Pain''" 5] by auto
  obtain w where w: "dict_get pd ''WalkPain'' (PyNum 5) = PyNum w"
    using a dict_get_num [of pd "''WalkPain''" 5] by auto
  show "\<exists>score. predict_in_demo_mode pd tp = Inr score"
    by (simp add: predict_in_demo_mode_def b g q w float_mul_def)
qed

text \<open>The empty record at T3: the defaults give 3.4, and filling one in changes nothing.\<close>

theorem demo_mode_defaults_witness:
  "predict_in_demo_mode Map.empty ''T3'' =
     predict_in_demo_mode [''WalkPain'' \<mapsto> PyNum 5] ''T3'' \<and>
   predict_in_demo_mode (Map.empty(''LOS'' \<mapsto> PyStr ''x'')) ''T3'' =
     predict_in_demo_mode Map.empty ''T3'' \<and>
   (\<exists>score. predict_in_demo_mode Map.empty ''T3'' = Inr score) \<and>
   predict_in_demo_mode Map.empty ''T3'' = Inr 3.4"
proof -
  have h: "Map.empty ''WalkPain'' = (None :: pyval option)"
    "''LOS'' \<notin> {''BMI_Current'', ''AgePreOp'', ''Pre-Op Pain'', ''WalkPain'', ''Approach''}"
    "\<forall>f \<in> {''BMI_Current'', ''AgePreOp'', ''Pre-Op Pain'', ''WalkPain''}.
       \<forall>s. Map.empty f \<noteq> Some (PyStr s)"
    by simp_all
  from demo_mode_defaults [of Map.empty "''T3''" "''LOS''" "Some (PyStr ''x'')"] h
  have "predict_in_demo_mode Map.empty ''T3'' =
      predict_in_demo_mode [''WalkPain'' \<mapsto> PyNum 5] ''T3''"
    and "predict_in_demo_mode (Map.empty(''LOS'' \<mapsto> PyStr ''x'')) ''T3'' =
      predict_in_demo_mode Map.empty ''T3''"
    and "\<exists>score. predict_in_demo_mode Map.empty ''T3'' = Inr score"
    by blast+
  then show ?thesis
    using demo_empty(1) by blast
qed

section \<open>Worked examples of the heuristic\<close>

text \<open>
  Claim C7.  For T3 and the record with \<open>BMI_Current\<close> 25, \<open>AgePreOp\<close> 65,
  \<open>Pre-Op Pain\<close> 5 and \<open>WalkPain\<close> 5 the heuristic returns
  2.0 + 0.25 + 0.65 + 1.0 - 0.5 = 3.4; for T5 with a posterior approach and the same
  values (given or defaulted) it returns 1.5 + 0.2 + 0.325 + 0.75 - 0.5 = 2.275.
\<close>

theorem heuristic_worked_examples:
  "predict_in_demo_mode
     [''BMI_Current'' \<mapsto> PyNum 25, ''AgePreOp'' \<mapsto> PyNum 65, ''Pre-Op Pain'' \<mapsto> PyNum 5,
      ''WalkPain'' \<mapsto> PyNum 5] ''T3'' = Inr (2.0 + 0.25 + 0.65 + 1.0 - 0.5) \<and>
   (2.0 + 0.25 + 0.65 + 1.0 - 0.5 :: real) = 3.4 \<and>
   predict_in_demo_mode
     [''Approach'' \<mapsto> PyStr ''Posterior''] ''T5'' = Inr (1.5 + 0.2 + 0.325 + 0.75 - 0.5) \<and>
   predict_in_demo_mode
     [''BMI_Current'' \<mapsto> PyNum 25, ''AgePreOp'' \<mapsto> PyNum 65, ''Pre-Op Pain'' \<mapsto> PyNum 5,
      ''WalkPain'' \<mapsto> PyNum 5, ''Approach'' \<mapsto> PyStr ''Posterior''] ''T5'' =
     Inr (1.5 + 0.2 + 0.325 + 0.75 - 0.5) \<and>
   (1.5 + 0.2 + 0.325 + 0.75 - 0.5 :: real) = 2.275"
  by (simp add: predict_in_demo_mode_def dict_get_def float_mul_def)

section \<open>Letter case of the timepoint\<close>

text \<open>
  Claim C9.  \<open>predict_with_model\<close> converts the timepoint to upper case before it
  validates it: \<open>t3\<close> and \<open>t5\<close> become \<open>T3\<close> and \<open>T5\<close>, pass the validation,
  and give, in every environment and for every record, the result of \<open>T3\<close> and \<open>T5\<close>
  (same feature list, same artifact files, same result); with working artifacts and a
  complete record \<open>t3\<close> yields a score.
\<close>

theorem lowercase_timepoint_accepted:
  "upper ''t3'' = ''T3'' \<and> upper ''t5'' = ''T5'' \<and>
   upper ''t3'' \<in> set [''T3'', ''T5''] \<and> upper ''t5'' \<in> set [''T3'', ''T5''] \<and>
   predict_with_model e pd ''t3'' = predict_with_model e pd ''T3'' \<and>
   predict_with_model e pd ''t5'' = predict_with_model e pd ''T5'' \<and>
   load_models e (upper ''t3'') = load_models e ''T3'' \<and>
   load_models e (upper ''t5'') = load_models e ''T5'' \<and>
   required_features (upper ''t3'') = T3_IMPORTANT_FEATURES \<and>
   required_features (upper ''t5'') = T5_IMPORTANT_FEATURES \<and>
   predict_with_model env_trained t3_patient ''t3'' = Inr 8"
proof -
  have "predict_with_model e pd ''t3'' = predict_with_model e pd ''T3''"
    "predict_with_model e pd ''t5'' = predict_with_model e pd ''T5''"
    by (simp_all add: predict_with_model_def upper_simps)
  moreover have "predict_with_model env_trained t3_patient ''t3'' = Inr 8"
    using predict_trained by (simp add: predict_with_model_def upper_simps)
  ultimately show ?thesis
    by (simp add: upper_simps required_features_def)
qed

section \<open>Monotonicity in the walking pain\<close>

text \<open>
  Claim C10.  For T3 and fixed other features, the heuristic is non-increasing in
  \<open>WalkPain\<close>: if it returns a score for one walking pain value, it returns a score for
  every larger value, and that score is not higher.
\<close>

theorem walk_pain_monotone:
  "w1 \<le> w2 \<Longrightarrow> predict_in_demo_mode (pd(''WalkPain'' \<mapsto> PyNum w1)) ''T3'' = Inr s1 \<Longrightarrow>
   \<exists>s2. predict_in_demo_mode (pd(''WalkPain'' \<mapsto> PyNum w2)) ''T3'' = Inr s2 \<and> s2 \<le> s1"
  by (auto simp: predict_in_demo_mode_def dict_get_def float_mul_def
      split: sum.splits option.splits pyval.splits)

theorem walk_pain_monotone_witness:
  "(2::real) \<le> 9 \<and>
   predict_in_demo_mode [''WalkPain'' \<mapsto> PyNum 2] ''T3'' = Inr 3.7 \<and>
   (\<exists>s2. predict_in_demo_mode [''WalkPain'' \<mapsto> PyNum 9] ''T3'' = Inr s2 \<and> s2 \<le> 3.7)"
proof -
  have h1: "(2::real) \<le> 9"
    by simp
  have h2: "predict_in_demo_mode [''WalkPain'' \<mapsto> PyNum 2] ''T3'' = Inr 3.7"
    by (simp add: predict_in_demo_mode_def dict_get_def float_mul_def)
  from walk_pain_monotone [OF h1 h2] h1 h2 show ?thesis
    by blast
qed

end
